theory Spec2Isabelle
  imports Main "HOL-Library.Word"
begin

section \<open>The etcd repository of pkg/state\<close>

text \<open>
  A shallow embedding of \<^verbatim>\<open>pkg/state/etcd.go\<close>: the repository over an etcd client
  (\<^verbatim>\<open>Get\<close>, \<^verbatim>\<open>Put\<close>, \<^verbatim>\<open>Heartbeat\<close>, \<^verbatim>\<open>PutIfNotExist\<close>, \<^verbatim>\<open>Watch\<close>,
  \<^verbatim>\<open>WatchPrefix\<close>, \<^verbatim>\<open>DeleteWithValue\<close>) and the relay goroutine \<^verbatim>\<open>handleWatchEvent\<close>.

  Byte slices and Go strings are both \<open>string\<close> (a list of 8-bit characters); the
  conversions \<^verbatim>\<open>string(val)\<close> and \<^verbatim>\<open>string(kv.Key)\<close> keep the bytes. The etcd client is
  an external library: what it answers is either a parameter of the repository's
  functions, or, where a property is about stored state, the answer of a small model of
  the store (a map from keys to values with a revision counter).
\<close>

subsection \<open>Errors\<close>

text \<open>
  The error values of the file. An error made by the etcd client is known by its message
  only. \<open>GetFailure\<close> is \<^verbatim>\<open>fmt.Errorf("get value failure for key[%s], error:%s", key, err)\<close>,
  \<open>KeyNotExist\<close> is \<^verbatim>\<open>fmt.Errorf("key[%s] not exist", key)\<close>, \<open>ValueEmpty\<close> is
  \<^verbatim>\<open>fmt.Errorf("key[%s]'s value is empty", key)\<close>, \<open>NotifyWatchError\<close> is
  \<^verbatim>\<open>fmt.Errorf("notify watch event error, maybe context is canceled")\<close> and
  \<open>WatchIsClosed\<close> is \<^verbatim>\<open>errors.New("watch is closed")\<close>.
\<close>

datatype error =
    ClientError string
  | GetFailure string error
  | KeyNotExist string
  | ValueEmpty string
  | NotifyWatchError
  | WatchIsClosed

subsection \<open>Data of the etcd client\<close>

record KeyValue =
  kv_Key :: string
  kv_Value :: string

text \<open>\<open>Revision\<close> is \<^verbatim>\<open>resp.Header.Revision\<close>, an \<^verbatim>\<open>int64\<close>.\<close>

record GetResponse =
  Revision :: "64 word"
  Kvs :: "KeyValue list"

datatype mvcc_EventType = PUT | DELETE

record etcd_Event =
  ev_Type :: mvcc_EventType
  Kv :: KeyValue

text \<open>\<open>resp_Err\<close> is what the method \<^verbatim>\<open>watchResp.Err()\<close> returns.\<close>

record WatchResponse =
  resp_Err :: "string option"
  Events :: "etcd_Event list"

text \<open>
  The raw channel \<^verbatim>\<open>etcd.WatchChan\<close> as the relay reads it: the batches it delivers, in
  order, and whether the client closes the channel after them. When it does not, a
  \<^verbatim>\<open>range\<close> over the channel waits for ever after the last batch.
\<close>

record WatchChan =
  responses :: "WatchResponse list"
  wc_closed :: bool

datatype OpOption = WithRev "64 word" | WithPrefix | WithPrevKV | WithSerializable

text \<open>A call \<^verbatim>\<open>r.client.Watch(ctx, key, opts...)\<close>.\<close>

record watch_call =
  wkey :: string
  wopts :: "OpOption list"

subsection \<open>Events and channels of the repository\<close>

text \<open>
  The declarations of \<^verbatim>\<open>Event\<close>, \<^verbatim>\<open>EventType\<close>, \<^verbatim>\<open>WatchEventChan\<close> and \<^verbatim>\<open>Closed\<close> are
  in another file of the package; the fields are the ones \<^verbatim>\<open>etcd.go\<close> sets.
\<close>

datatype EventType = EventTypeModify | EventTypeDelete

record Event =
  Type :: EventType
  Key :: string
  Value :: string
  Err :: "error option"

text \<open>
  Modelled from the spec: the declaration of \<^verbatim>\<open>EventType\<close> is not in \<^verbatim>\<open>etcd.go\<close>, so the
  zero value that \<^verbatim>\<open>&Event{Err: err}\<close> leaves in \<open>Type\<close> is taken to be the first constant
  the spec lists, Modify. No property below depends on that choice.
\<close>

definition err_event :: "error \<Rightarrow> Event" where
  "err_event e = \<lparr>Type = EventTypeModify, Key = [], Value = [], Err = Some e\<rparr>"

text \<open>
  A Go channel, as far as its writer can tell: its buffer size, whether another goroutine
  holds it (a channel just made by \<^verbatim>\<open>make\<close> and not yet returned or passed on has no
  reader), the events a send was tried with, the events sent, and how often \<^verbatim>\<open>close\<close> was
  called on it.
\<close>

record 'a chan =
  cap :: nat
  reader :: bool
  offered :: "'a list"
  sent :: "'a list"
  closes :: nat

definition make_chan :: "nat \<Rightarrow> 'a chan" where
  "make_chan n = \<lparr>cap = n, reader = False, offered = [], sent = [], closes = 0\<rparr>"

definition close_chan :: "'a chan \<Rightarrow> 'a chan" where
  "close_chan ch = ch\<lparr>closes := closes ch + 1\<rparr>"

text \<open>The channel once the caller (or a goroutine) has it.\<close>

definition hand_over :: "'a chan \<Rightarrow> 'a chan" where
  "hand_over ch = ch\<lparr>reader := True\<rparr>"

text \<open>
  What the rest of the program does while one \<^verbatim>\<open>select\<close> of \<^verbatim>\<open>notifyWatchEvent\<close> waits:
  whether the reader takes the event, whether \<^verbatim>\<open>ctx.Done()\<close> is or becomes ready, and,
  when both cases are ready, whether Go picks the send.
\<close>

record sel_env =
  taker :: bool
  ctx_done :: bool
  send_first :: bool

text \<open>
  The send case of the \<^verbatim>\<open>select\<close> can proceed when the buffer has room, which is certain
  while fewer events were sent than the buffer holds, or when a reader takes the event.
\<close>

definition send_ready :: "sel_env \<Rightarrow> 'a chan \<Rightarrow> bool" where
  "send_ready env ch = (length (sent ch) < cap ch \<or> (reader ch \<and> taker env))"

text \<open>
  \<^verbatim>\<open>notifyWatchEvent\<close>: \<open>Sent\<close> is \<^verbatim>\<open>return true\<close>, \<open>Cancelled\<close> is \<^verbatim>\<open>return false\<close>, and
  \<open>Blocked\<close> is a \<^verbatim>\<open>select\<close> none of whose cases ever becomes ready: the call does not
  return.
\<close>

datatype notify = Sent "Event chan" | Cancelled "Event chan" | Blocked "Event chan"

text \<open>The channel as one call of \<^verbatim>\<open>notifyWatchEvent\<close> leaves it.\<close>

fun notify_chan :: "notify \<Rightarrow> Event chan" where
  "notify_chan (Sent ch) = ch"
| "notify_chan (Cancelled ch) = ch"
| "notify_chan (Blocked ch) = ch"

definition notifyWatchEvent :: "sel_env \<Rightarrow> Event chan \<Rightarrow> Event \<Rightarrow> notify" where
  "notifyWatchEvent env ch event =
     (let ch' = ch\<lparr>offered := offered ch @ [event]\<rparr> in
      if send_ready env ch \<and> (\<not> ctx_done env \<or> send_first env)
      then Sent (ch'\<lparr>sent := sent ch @ [event]\<rparr>)
      else if ctx_done env then Cancelled ch'
      else Blocked ch')"

text \<open>
  Three ways a \<^verbatim>\<open>select\<close> can go, for the examples: the reader takes the event and the
  context is live; the context is cancelled and the cancellation is what \<^verbatim>\<open>select\<close> picks;
  nobody reads and nobody cancels. \<open>always env\<close> is the run in which every \<^verbatim>\<open>select\<close> goes
  the same way.
\<close>

definition reader_takes :: sel_env where
  "reader_takes = \<lparr>taker = True, ctx_done = False, send_first = True\<rparr>"

definition cancelled_first :: sel_env where
  "cancelled_first = \<lparr>taker = True, ctx_done = True, send_first = False\<rparr>"

definition nobody :: sel_env where
  "nobody = \<lparr>taker = False, ctx_done = False, send_first = False\<rparr>"

definition always :: "sel_env \<Rightarrow> nat \<Rightarrow> sel_env" where
  "always env n = env"

subsection \<open>A model of the store behind the client\<close>

text \<open>
  The store as the repository's operations see it through the client: the value of each
  key and the revision. \<open>fault\<close> is the transport failure of one call, if there is one; a
  failed call leaves the store as it was.
\<close>

record store =
  entries :: "string \<rightharpoonup> string"
  revision :: "64 word"

definition client_Get :: "store \<Rightarrow> string option \<Rightarrow> string \<Rightarrow> string + GetResponse" where
  "client_Get st fault key =
     (case fault of
        Some msg \<Rightarrow> Inl msg
      | None \<Rightarrow> Inr \<lparr>Revision = revision st,
                     Kvs = (case entries st key of
                              None \<Rightarrow> []
                            | Some v \<Rightarrow> [\<lparr>kv_Key = key, kv_Value = v\<rparr>])\<rparr>)"

definition client_Put :: "store \<Rightarrow> string option \<Rightarrow> string \<Rightarrow> string \<Rightarrow> string + store" where
  "client_Put st fault key val =
     (case fault of
        Some msg \<Rightarrow> Inl msg
      | None \<Rightarrow> Inr (st\<lparr>entries := (entries st)(key \<mapsto> val), revision := revision st + 1\<rparr>))"

text \<open>
  The transaction \<^verbatim>\<open>Txn(ctx).If(cmp).Then(op).Commit()\<close> with the one comparison and the
  one operation that \<^verbatim>\<open>DeleteWithValue\<close> builds. A comparison on the value of a key that
  does not exist fails.
\<close>

datatype Cmp = Compare_Value_eq string string

datatype Op = OpDelete string

fun holds :: "store \<Rightarrow> Cmp \<Rightarrow> bool" where
  "holds st (Compare_Value_eq key v) = (entries st key = Some v)"

fun apply_Op :: "store \<Rightarrow> Op \<Rightarrow> store" where
  "apply_Op st (OpDelete key) =
     (case entries st key of
        None \<Rightarrow> st
      | Some _ \<Rightarrow> st\<lparr>entries := (entries st)(key := None), revision := revision st + 1\<rparr>)"

record TxnResponse =
  Succeeded :: bool

definition client_Txn :: "store \<Rightarrow> string option \<Rightarrow> Cmp \<Rightarrow> Op \<Rightarrow> string + (TxnResponse \<times> store)" where
  "client_Txn st fault cmp thn =
     (case fault of
        Some msg \<Rightarrow> Inl msg
      | None \<Rightarrow> if holds st cmp then Inr (\<lparr>Succeeded = True\<rparr>, apply_Op st thn)
                else Inr (\<lparr>Succeeded = False\<rparr>, st))"

subsection \<open>Get and Put\<close>

text \<open>\<^verbatim>\<open>r.get\<close>, given what \<^verbatim>\<open>r.client.Get(ctx, key)\<close> answered.\<close>

definition get :: "string + GetResponse \<Rightarrow> string \<Rightarrow> error + GetResponse" where
  "get answer key =
     (case answer of
        Inl msg \<Rightarrow> Inl (GetFailure key (ClientError msg))
      | Inr resp \<Rightarrow> Inr resp)"

definition getValue :: "string \<Rightarrow> GetResponse \<Rightarrow> error + string" where
  "getValue key resp =
     (case Kvs resp of
        [] \<Rightarrow> Inl (KeyNotExist key)
      | firstkv # _ \<Rightarrow>
          if length (kv_Value firstkv) = 0 then Inl (ValueEmpty key)
          else Inr (kv_Value firstkv))"

definition Get :: "string + GetResponse \<Rightarrow> string \<Rightarrow> error + string" where
  "Get answer key =
     (case get answer key of
        Inl err \<Rightarrow> Inl err
      | Inr resp \<Rightarrow> getValue key resp)"

text \<open>
  \<^verbatim>\<open>Put\<close> hands the value to \<^verbatim>\<open>r.client.Put(ctx, key, string(val))\<close> as it is and returns
  the client's error, or nil; the second component is the store after the call.
\<close>

definition Put :: "store \<Rightarrow> string option \<Rightarrow> string \<Rightarrow> string \<Rightarrow> error option \<times> store" where
  "Put st fault key val =
     (case client_Put st fault key val of
        Inl msg \<Rightarrow> (Some (ClientError msg), st)
      | Inr st' \<Rightarrow> (None, st'))"

subsection \<open>DeleteWithValue\<close>

text \<open>The comparison and the operation that \<^verbatim>\<open>DeleteWithValue\<close> hands to the transaction.\<close>

definition DeleteWithValue_cmp :: "string \<Rightarrow> string \<Rightarrow> Cmp" where
  "DeleteWithValue_cmp key val = Compare_Value_eq key val"

definition DeleteWithValue_then :: "string \<Rightarrow> Op" where
  "DeleteWithValue_then key = OpDelete key"

text \<open>\<^verbatim>\<open>DeleteWithValue\<close>: the pair it returns and the store after the call.\<close>

definition DeleteWithValue :: "store \<Rightarrow> string option \<Rightarrow> string \<Rightarrow> string \<Rightarrow> (bool \<times> error option) \<times> store" where
  "DeleteWithValue st fault key val =
     (case client_Txn st fault (DeleteWithValue_cmp key val) (DeleteWithValue_then key) of
        Inl msg \<Rightarrow> ((False, Some (ClientError msg)), st)
      | Inr (resp, st') \<Rightarrow> ((Succeeded resp, None), st'))"

subsection \<open>Heartbeat and PutIfNotExist\<close>

text \<open>
  The heartbeat type with \<^verbatim>\<open>newHeartbeat\<close>, \<^verbatim>\<open>grantKeepAliveLease\<close>, its own
  \<^verbatim>\<open>PutIfNotExist\<close> and \<^verbatim>\<open>keepAlive\<close> is declared in another file. What these calls return
  is a parameter here: \<open>granted\<close> is the error of \<^verbatim>\<open>h.grantKeepAliveLease(ctx)\<close>, or nil;
  \<open>put\<close> is the pair \<^verbatim>\<open>success, err\<close> of \<^verbatim>\<open>h.PutIfNotExist(ctx)\<close>; \<open>keepalive_run\<close> says
  whether \<^verbatim>\<open>h.keepAlive\<close> comes to an end (by returning or by a panic, both of which run
  the deferred \<^verbatim>\<open>close\<close>) or goes on for ever.
\<close>

datatype keepalive_run = KeepAlive_ends | KeepAlive_forever

text \<open>The goroutine a call starts: \<^verbatim>\<open>h.keepAlive(ctx, flag)\<close> under \<^verbatim>\<open>defer close(ch)\<close>.\<close>

datatype task = KeepAlive_task bool

text \<open>
  What a call leaves behind: the channel it returns (\<open>None\<close> is nil), the error it
  returns, and the goroutines it has started.
\<close>

record keepalive_setup =
  closed_chan :: "unit chan option"
  setup_err :: "error option"
  started :: "task list"

definition Heartbeat :: "error option \<Rightarrow> keepalive_setup" where
  "Heartbeat granted =
     (case granted of
        Some err \<Rightarrow> \<lparr>closed_chan = None, setup_err = Some err, started = []\<rparr>
      | None \<Rightarrow>
          let ch = make_chan 0 in
          \<lparr>closed_chan = Some (hand_over ch), setup_err = None, started = [KeepAlive_task False]\<rparr>)"

definition PutIfNotExist :: "bool \<times> error option \<Rightarrow> bool \<times> keepalive_setup" where
  "PutIfNotExist put =
     (case put of
        (success, Some err) \<Rightarrow> (False, \<lparr>closed_chan = None, setup_err = Some err, started = []\<rparr>)
      | (success, None) \<Rightarrow>
          if success then
            let ch = make_chan 0 in
            (success, \<lparr>closed_chan = Some (hand_over ch), setup_err = None,
                       started = [KeepAlive_task True]\<rparr>)
          else (success, \<lparr>closed_chan = None, setup_err = None, started = []\<rparr>))"

text \<open>
  The body of the goroutine, on the channel of the call that started it:
  \<^verbatim>\<open>defer close(ch); h.keepAlive(ctx, flag)\<close>. The result is the channel when the goroutine
  has run as far as it ever gets.
\<close>

fun run_task :: "keepalive_run \<Rightarrow> task \<Rightarrow> unit chan \<Rightarrow> unit chan" where
  "run_task KeepAlive_ends (KeepAlive_task flag) ch = close_chan ch"
| "run_task KeepAlive_forever (KeepAlive_task flag) ch = ch"

text \<open>The channel of a call after every goroutine the call started has run.\<close>

definition after_tasks :: "keepalive_run \<Rightarrow> keepalive_setup \<Rightarrow> unit chan option" where
  "after_tasks run s = map_option (\<lambda>ch. fold (run_task run) (started s) ch) (closed_chan s)"

subsection \<open>Watch and WatchPrefix\<close>

text \<open>
  How a call ends: it returns the channel and a nil error, it returns nil and an error,
  or it does not return (it waits for ever in a \<^verbatim>\<open>select\<close>).
\<close>

datatype ret = Ret_chan | Ret_error error | No_return

text \<open>
  What a call has done when it ends: the change streams it opened with
  \<^verbatim>\<open>r.client.Watch\<close>, the channel it made (as it is when the call ends), whether it
  started the relay goroutine \<^verbatim>\<open>go r.handleWatchEvent(ctx, wch, ch)\<close>, and how it ended.
\<close>

record watch_setup =
  watch_calls :: "watch_call list"
  echan :: "Event chan option"
  relay_started :: bool
  ret :: ret

text \<open>
  \<^verbatim>\<open>Watch\<close>, given what \<^verbatim>\<open>r.client.Get(ctx, key)\<close> answered and how the one \<^verbatim>\<open>select\<close> of
  the call goes. The channel has a buffer of one event.
\<close>

definition Watch :: "sel_env \<Rightarrow> string + GetResponse \<Rightarrow> string \<Rightarrow> watch_setup" where
  "Watch env answer key =
     (case get answer key of
        Inl err \<Rightarrow> \<lparr>watch_calls = [], echan = None, relay_started = False, ret = Ret_error err\<rparr>
      | Inr resp \<Rightarrow>
          let wch = \<lparr>wkey = key, wopts = [WithRev (Revision resp + 1)]\<rparr>;
              ch = make_chan 1;
              live = \<lparr>watch_calls = [wch], echan = Some (hand_over ch), relay_started = True,
                      ret = Ret_chan\<rparr>
          in (case Kvs resp of
                [] \<Rightarrow> live
              | firstkv # _ \<Rightarrow>
                  if length (kv_Value firstkv) \<noteq> 0 then
                    (case notifyWatchEvent env ch
                            \<lparr>Type = EventTypeModify, Key = key, Value = kv_Value firstkv, Err = None\<rparr> of
                       Sent ch' \<Rightarrow> live\<lparr>echan := Some (hand_over ch')\<rparr>
                     | Cancelled ch' \<Rightarrow>
                         \<lparr>watch_calls = [wch], echan = Some (close_chan ch'),
                          relay_started = False, ret = Ret_error NotifyWatchError\<rparr>
                     | Blocked ch' \<Rightarrow>
                         \<lparr>watch_calls = [wch], echan = Some ch',
                          relay_started = False, ret = No_return\<rparr>)
                  else live))"

text \<open>
  The loop of \<^verbatim>\<open>WatchPrefix\<close> over \<^verbatim>\<open>resp.Kvs\<close>, from index \<open>i\<close> on; \<open>envs i\<close> is how the
  \<^verbatim>\<open>select\<close> of iteration \<open>i\<close> goes. \<open>Sent\<close> is the loop running to its end.
\<close>

fun notify_Kvs :: "(nat \<Rightarrow> sel_env) \<Rightarrow> nat \<Rightarrow> KeyValue list \<Rightarrow> Event chan \<Rightarrow> notify" where
  "notify_Kvs envs i [] ch = Sent ch"
| "notify_Kvs envs i (kv # kvs) ch =
     (case notifyWatchEvent (envs i) ch
             \<lparr>Type = EventTypeModify, Key = kv_Key kv, Value = kv_Value kv, Err = None\<rparr> of
        Sent ch' \<Rightarrow> notify_Kvs envs (Suc i) kvs ch'
      | Cancelled ch' \<Rightarrow> Cancelled ch'
      | Blocked ch' \<Rightarrow> Blocked ch')"

text \<open>
  \<^verbatim>\<open>WatchPrefix\<close>, given what
  \<^verbatim>\<open>r.client.Get(ctx, prefixKey, etcd.WithPrefix(), etcd.WithSerializable())\<close> answered. The
  channel has no buffer, and the error of the read is returned as the client made it.
\<close>

definition WatchPrefix :: "(nat \<Rightarrow> sel_env) \<Rightarrow> string + GetResponse \<Rightarrow> string \<Rightarrow> watch_setup" where
  "WatchPrefix envs answer prefixKey =
     (case answer of
        Inl msg \<Rightarrow> \<lparr>watch_calls = [], echan = None, relay_started = False,
                    ret = Ret_error (ClientError msg)\<rparr>
      | Inr resp \<Rightarrow>
          let wch = \<lparr>wkey = prefixKey,
                     wopts = [WithRev (Revision resp + 1), WithPrefix, WithPrevKV]\<rparr>;
              ch = make_chan 0
          in (case notify_Kvs envs 0 (Kvs resp) ch of
                Sent ch' \<Rightarrow>
                  \<lparr>watch_calls = [wch], echan = Some (hand_over ch'), relay_started = True,
                   ret = Ret_chan\<rparr>
              | Cancelled ch' \<Rightarrow>
                  \<lparr>watch_calls = [wch], echan = Some (close_chan ch'), relay_started = False,
                   ret = Ret_error NotifyWatchError\<rparr>
              | Blocked ch' \<Rightarrow>
                  \<lparr>watch_calls = [wch], echan = Some ch', relay_started = False,
                   ret = No_return\<rparr>))"

subsection \<open>The relay goroutine\<close>

text \<open>The event the relay makes of one raw event.\<close>

definition convert :: "etcd_Event \<Rightarrow> Event" where
  "convert event =
     \<lparr>Type = (if ev_Type event = DELETE then EventTypeDelete else EventTypeModify),
      Key = kv_Key (Kv event), Value = kv_Value (Kv event), Err = None\<rparr>"

text \<open>
  Where a loop of the relay stands after some iterations: it goes on (with the number of
  \<^verbatim>\<open>select\<close>s done so far), the function has returned, or it waits for ever.
\<close>

datatype relay_step = Continue nat "Event chan" | Return "Event chan" | Stuck "Event chan"

fun step_chan :: "relay_step \<Rightarrow> Event chan" where
  "step_chan (Continue n ch) = ch"
| "step_chan (Return ch) = ch"
| "step_chan (Stuck ch) = ch"

text \<open>
  The inner loop over \<^verbatim>\<open>watchResp.Events\<close>; \<open>envs n\<close> is how the \<open>n\<close>-th \<^verbatim>\<open>select\<close> of the
  relay goes.
\<close>

fun relay_events :: "(nat \<Rightarrow> sel_env) \<Rightarrow> etcd_Event list \<Rightarrow> nat \<Rightarrow> Event chan \<Rightarrow> relay_step" where
  "relay_events envs [] n ch = Continue n ch"
| "relay_events envs (event # events) n ch =
     (case notifyWatchEvent (envs n) ch (convert event) of
        Sent ch' \<Rightarrow> relay_events envs events (Suc n) ch'
      | Cancelled ch' \<Rightarrow> Return ch'
      | Blocked ch' \<Rightarrow> Stuck ch')"

text \<open>The outer loop \<^verbatim>\<open>for watchResp := range wc\<close> over the batches the channel delivers.\<close>

fun relay_responses :: "(nat \<Rightarrow> sel_env) \<Rightarrow> WatchResponse list \<Rightarrow> nat \<Rightarrow> Event chan \<Rightarrow> relay_step" where
  "relay_responses envs [] n ch = Continue n ch"
| "relay_responses envs (watchResp # rest) n ch =
     (case resp_Err watchResp of
        None \<Rightarrow>
          (case relay_events envs (Events watchResp) n ch of
             Continue n' ch' \<Rightarrow> relay_responses envs rest n' ch'
           | Return ch' \<Rightarrow> Return ch'
           | Stuck ch' \<Rightarrow> Stuck ch')
      | Some msg \<Rightarrow>
          (case notifyWatchEvent (envs n) ch (err_event (ClientError msg)) of
             Cancelled ch' \<Rightarrow> Return ch'
           | Blocked ch' \<Rightarrow> Stuck ch'
           | Sent ch' \<Rightarrow>
               (case relay_events envs (Events watchResp) (Suc n) ch' of
                  Continue n' ch'' \<Rightarrow> relay_responses envs rest n' ch''
                | Return ch'' \<Rightarrow> Return ch''
                | Stuck ch'' \<Rightarrow> Stuck ch'')))"

text \<open>
  How the goroutine ends: the channel as it is then, and whether the function has
  returned (so that the deferred \<^verbatim>\<open>close(ech)\<close> has run).
\<close>

record relay_end =
  rchan :: "Event chan"
  returned :: bool

definition handleWatchEvent :: "(nat \<Rightarrow> sel_env) \<Rightarrow> WatchChan \<Rightarrow> Event chan \<Rightarrow> relay_end" where
  "handleWatchEvent envs wc ech =
     (case relay_responses envs (responses wc) 0 ech of
        Return ch \<Rightarrow> \<lparr>rchan = close_chan ch, returned = True\<rparr>
      | Stuck ch \<Rightarrow> \<lparr>rchan = ch, returned = False\<rparr>
      | Continue n ch \<Rightarrow>
          if wc_closed wc then
            (case notifyWatchEvent (envs n) ch (err_event WatchIsClosed) of
               Sent ch' \<Rightarrow> \<lparr>rchan = close_chan ch', returned = True\<rparr>
             | Cancelled ch' \<Rightarrow> \<lparr>rchan = close_chan ch', returned = True\<rparr>
             | Blocked ch' \<Rightarrow> \<lparr>rchan = ch', returned = False\<rparr>)
          else \<lparr>rchan = ch, returned = False\<rparr>)"

text \<open>
  A whole watch: the call, and, when the call started the relay, the relay on the
  channel the call returned. \<open>None\<close> when no relay was started.
\<close>

definition watch_then_relay :: "watch_setup \<Rightarrow> (nat \<Rightarrow> sel_env) \<Rightarrow> WatchChan \<Rightarrow> relay_end option" where
  "watch_then_relay s envs wc =
     (case echan s of
        None \<Rightarrow> None
      | Some ch \<Rightarrow> if relay_started s then Some (handleWatchEvent envs wc ch) else None)"

text \<open>The events sent on the channel of a whole watch, in order; \<open>None\<close> when no relay was started.\<close>

definition delivered :: "watch_setup \<Rightarrow> (nat \<Rightarrow> sel_env) \<Rightarrow> WatchChan \<Rightarrow> Event list option" where
  "delivered s envs wc = map_option (\<lambda>out. sent (rchan out)) (watch_then_relay s envs wc)"

section \<open>Properties\<close>

subsection \<open>Get, Put and DeleteWithValue\<close>

text \<open>
  C5. When the read itself does not fail, \<^verbatim>\<open>Get\<close> returns an error in exactly two cases:
  the not-exist error when the key is absent (the response has no entries), and the
  value-is-empty error when the key is there with a value of length zero. In every other
  case it returns the stored value and no error. A failed read is returned as the
  get-failure error.
\<close>

theorem Get_NotFound_Empty:
  "Get (client_Get st None key) key =
     (case entries st key of
        None \<Rightarrow> Inl (KeyNotExist key)
      | Some v \<Rightarrow> if length v = 0 then Inl (ValueEmpty key) else Inr v)
   \<and> Get (client_Get st (Some msg) key) key = Inl (GetFailure key (ClientError msg))
   \<and> Get (Inr resp) key =
       (case Kvs resp of
          [] \<Rightarrow> Inl (KeyNotExist key)
        | firstkv # rest \<Rightarrow>
            if length (kv_Value firstkv) = 0 then Inl (ValueEmpty key)
            else Inr (kv_Value firstkv))"
  by (simp add: Get_def get_def getValue_def client_Get_def split: option.split list.split)

text \<open>The three cases on a store with one entry with a value and one with an empty value.\<close>

theorem Get_NotFound_Empty_witness:
  "Get (client_Get \<lparr>entries = [''svc/1'' \<mapsto> ''alive'', ''svc/2'' \<mapsto> ''''], revision = 9\<rparr> None ''svc/1'') ''svc/1''
     = Inr ''alive''
   \<and> Get (client_Get \<lparr>entries = [''svc/1'' \<mapsto> ''alive'', ''svc/2'' \<mapsto> ''''], revision = 9\<rparr> None ''svc/2'') ''svc/2''
     = Inl (ValueEmpty ''svc/2'')
   \<and> Get (client_Get \<lparr>entries = [''svc/1'' \<mapsto> ''alive'', ''svc/2'' \<mapsto> ''''], revision = 9\<rparr> None ''svc/3'') ''svc/3''
     = Inl (KeyNotExist ''svc/3'')"
  using Get_NotFound_Empty [of "\<lparr>entries = [''svc/1'' \<mapsto> ''alive'', ''svc/2'' \<mapsto> ''''], revision = 9\<rparr>" "''svc/1''"]
        Get_NotFound_Empty [of "\<lparr>entries = [''svc/1'' \<mapsto> ''alive'', ''svc/2'' \<mapsto> ''''], revision = 9\<rparr>" "''svc/2''"]
        Get_NotFound_Empty [of "\<lparr>entries = [''svc/1'' \<mapsto> ''alive'', ''svc/2'' \<mapsto> ''''], revision = 9\<rparr>" "''svc/3''"]
  by simp

text \<open>
  C10. \<^verbatim>\<open>Put\<close> accepts a value of length zero without an error; after it the key is in
  the store, and \<^verbatim>\<open>Get\<close> of that key returns the value-is-empty error, not the value.
\<close>

theorem Put_empty_then_Get_Empty:
  "fst (Put st None key []) = None
   \<and> entries (snd (Put st None key [])) key = Some []
   \<and> Get (client_Get (snd (Put st None key [])) None key) key = Inl (ValueEmpty key)"
  by (simp add: Put_def client_Put_def Get_def get_def getValue_def client_Get_def)

text \<open>The round trip on an empty store.\<close>

theorem Put_empty_then_Get_Empty_witness:
  "fst (Put \<lparr>entries = Map.empty, revision = 1\<rparr> None ''svc/1'' []) = None
   \<and> Get (client_Get (snd (Put \<lparr>entries = Map.empty, revision = 1\<rparr> None ''svc/1'' [])) None ''svc/1'') ''svc/1''
       = Inl (ValueEmpty ''svc/1'')"
  using Put_empty_then_Get_Empty [of "\<lparr>entries = Map.empty, revision = 1\<rparr>" "''svc/1''"]
  by simp

text \<open>
  C6. \<^verbatim>\<open>DeleteWithValue\<close> runs one transaction that compares the value of the key and
  deletes the key. It returns \<^verbatim>\<open>true\<close> exactly when the stored value equals the expected
  one, and then the key is gone; when the comparison fails it returns \<^verbatim>\<open>false\<close> with a
  nil error and the store is as before; the error is not nil only when the transaction
  itself failed.
\<close>

theorem DeleteWithValue_compare_and_delete:
  "DeleteWithValue st None key val =
     ((entries st key = Some val, None),
      (if entries st key = Some val
       then st\<lparr>entries := (entries st)(key := None), revision := revision st + 1\<rparr>
       else st))
   \<and> DeleteWithValue st (Some msg) key val = ((False, Some (ClientError msg)), st)
   \<and> (snd (fst (DeleteWithValue st fault key val)) \<noteq> None \<longleftrightarrow> fault \<noteq> None)"
  by (cases fault)
     (auto simp: DeleteWithValue_def client_Txn_def DeleteWithValue_cmp_def DeleteWithValue_then_def)

text \<open>A matching and a non-matching expected value.\<close>

theorem DeleteWithValue_compare_and_delete_witness:
  "DeleteWithValue \<lparr>entries = [''lock/a'' \<mapsto> ''node1''], revision = 4\<rparr> None ''lock/a'' ''node1''
     = ((True, None), \<lparr>entries = [''lock/a'' \<mapsto> ''node1''](''lock/a'' := None), revision = 5\<rparr>)
   \<and> DeleteWithValue \<lparr>entries = [''lock/a'' \<mapsto> ''node1''], revision = 4\<rparr> None ''lock/a'' ''node2''
     = ((False, None), \<lparr>entries = [''lock/a'' \<mapsto> ''node1''], revision = 4\<rparr>)"
  using DeleteWithValue_compare_and_delete [of "\<lparr>entries = [''lock/a'' \<mapsto> ''node1''], revision = 4\<rparr>" "''lock/a''" "''node1''"]
        DeleteWithValue_compare_and_delete [of "\<lparr>entries = [''lock/a'' \<mapsto> ''node1''], revision = 4\<rparr>" "''lock/a''" "''node2''"]
  by simp

subsection \<open>Heartbeat and PutIfNotExist\<close>

text \<open>
  C7. When the conditional put of \<^verbatim>\<open>PutIfNotExist\<close> reports no success and no error (the
  key is held by another writer), the call returns \<^verbatim>\<open>false\<close>, a nil channel and a nil error,
  and starts no goroutine. When it reports success, the call returns \<^verbatim>\<open>true\<close>, a nil error
  and an open channel, and starts one keepalive goroutine; the channel is closed once that
  goroutine ends, and stays open while it runs. An error of the conditional put is
  returned with \<^verbatim>\<open>false\<close> and a nil channel.
\<close>

theorem PutIfNotExist_lost_and_won:
  "PutIfNotExist (False, None) = (False, \<lparr>closed_chan = None, setup_err = None, started = []\<rparr>)
   \<and> fst (PutIfNotExist (True, None)) = True
   \<and> setup_err (snd (PutIfNotExist (True, None))) = None
   \<and> started (snd (PutIfNotExist (True, None))) = [KeepAlive_task True]
   \<and> map_option closes (closed_chan (snd (PutIfNotExist (True, None)))) = Some 0
   \<and> map_option closes (after_tasks KeepAlive_ends (snd (PutIfNotExist (True, None)))) = Some 1
   \<and> map_option closes (after_tasks KeepAlive_forever (snd (PutIfNotExist (True, None)))) = Some 0
   \<and> PutIfNotExist (success, Some err) =
       (False, \<lparr>closed_chan = None, setup_err = Some err, started = []\<rparr>)"
  by (simp add: PutIfNotExist_def after_tasks_def make_chan_def hand_over_def close_chan_def)

text \<open>The losing call, and the channel of the winning call after its keepalive has ended.\<close>

theorem PutIfNotExist_lost_and_won_witness:
  "fst (PutIfNotExist (False, None)) = False
   \<and> closed_chan (snd (PutIfNotExist (False, None))) = None
   \<and> setup_err (snd (PutIfNotExist (False, None))) = None
   \<and> started (snd (PutIfNotExist (False, None))) = []
   \<and> after_tasks KeepAlive_ends (snd (PutIfNotExist (True, None)))
       = Some \<lparr>cap = 0, reader = True, offered = [], sent = [], closes = 1\<rparr>"
  using PutIfNotExist_lost_and_won
  by (simp add: PutIfNotExist_def after_tasks_def make_chan_def hand_over_def close_chan_def)

text \<open>
  C8. When the lease grant of \<^verbatim>\<open>Heartbeat\<close> fails, the call returns that error with a nil
  channel and starts no goroutine. Otherwise it returns an open channel and a nil error and
  starts one keepalive goroutine; \<^verbatim>\<open>close\<close> is called on the channel exactly once when the
  goroutine ends, and not at all while it runs.
\<close>

theorem Heartbeat_grant_failure_and_close:
  "Heartbeat (Some err) = \<lparr>closed_chan = None, setup_err = Some err, started = []\<rparr>
   \<and> setup_err (Heartbeat None) = None
   \<and> started (Heartbeat None) = [KeepAlive_task False]
   \<and> map_option closes (closed_chan (Heartbeat None)) = Some 0
   \<and> map_option closes (after_tasks run (Heartbeat None))
       = Some (case run of KeepAlive_ends \<Rightarrow> 1 | KeepAlive_forever \<Rightarrow> 0)"
  by (cases run)
     (simp_all add: Heartbeat_def after_tasks_def make_chan_def hand_over_def close_chan_def)

text \<open>A failed grant, and the channel after the keepalive has ended and while it runs.\<close>

theorem Heartbeat_grant_failure_and_close_witness:
  "Heartbeat (Some (ClientError ''lease grant failed''))
     = \<lparr>closed_chan = None, setup_err = Some (ClientError ''lease grant failed''), started = []\<rparr>
   \<and> map_option closes (after_tasks KeepAlive_ends (Heartbeat None)) = Some 1
   \<and> map_option closes (after_tasks KeepAlive_forever (Heartbeat None)) = Some 0"
  using Heartbeat_grant_failure_and_close [of "ClientError ''lease grant failed''" KeepAlive_ends]
        Heartbeat_grant_failure_and_close [of "ClientError ''lease grant failed''" KeepAlive_forever]
  by simp

subsection \<open>The revision the change stream starts at\<close>

text \<open>Adding one to an \<^verbatim>\<open>int64\<close> below the largest value does not wrap.\<close>

lemma sint_succ_64:
  fixes r :: "64 word"
  assumes "sint r < 2 ^ 63 - 1"
  shows "sint (r + 1) = sint r + 1"
proof -
  have lo: "- (2 ^ 63) \<le> sint r" using sint_ge [of r] by simp
  have "sint (r + 1) = signed_take_bit 63 (sint r + 1)"
    by (simp add: sint_word_ariths)
  also have "\<dots> = sint r + 1"
    using lo assms by (intro signed_take_bit_int_eq_self) auto
  finally show ?thesis .
qed

text \<open>
  C4. When the first read succeeds with revision \<open>R\<close> in its header, \<^verbatim>\<open>Watch\<close> and
  \<^verbatim>\<open>WatchPrefix\<close> each open one change stream, with the option \<^verbatim>\<open>WithRev(R + 1)\<close>. The
  revision asked for is never \<open>R\<close>, and it is the integer \<open>R + 1\<close> for every \<open>R\<close> below the
  largest \<^verbatim>\<open>int64\<close>.
\<close>

theorem watch_stream_opened_after_revision:
  "watch_calls (Watch env (Inr resp) key)
     = [\<lparr>wkey = key, wopts = [WithRev (Revision resp + 1)]\<rparr>]
   \<and> watch_calls (WatchPrefix envs (Inr resp) prefixKey)
     = [\<lparr>wkey = prefixKey, wopts = [WithRev (Revision resp + 1), WithPrefix, WithPrevKV]\<rparr>]
   \<and> Revision resp + 1 \<noteq> Revision resp
   \<and> (sint (Revision resp) < 2 ^ 63 - 1 \<longrightarrow> sint (Revision resp + 1) = sint (Revision resp) + 1)"
proof -
  have w: "watch_calls (Watch env (Inr resp) key)
     = [\<lparr>wkey = key, wopts = [WithRev (Revision resp + 1)]\<rparr>]"
    by (simp add: Watch_def get_def Let_def split: list.split notify.split)
  have p: "watch_calls (WatchPrefix envs (Inr resp) prefixKey)
     = [\<lparr>wkey = prefixKey, wopts = [WithRev (Revision resp + 1), WithPrefix, WithPrevKV]\<rparr>]"
    by (simp add: WatchPrefix_def Let_def split: notify.split)
  show ?thesis using w p sint_succ_64 [of "Revision resp"] by simp
qed

text \<open>Both calls after a read at revision 41.\<close>

theorem watch_stream_opened_after_revision_witness:
  "watch_calls (Watch \<lparr>taker = True, ctx_done = False, send_first = True\<rparr>
       (Inr \<lparr>Revision = 41, Kvs = [\<lparr>kv_Key = ''cfg'', kv_Value = ''v''\<rparr>]\<rparr>) ''cfg'')
     = [\<lparr>wkey = ''cfg'', wopts = [WithRev 42]\<rparr>]
   \<and> watch_calls (WatchPrefix (\<lambda>n. \<lparr>taker = True, ctx_done = False, send_first = True\<rparr>)
       (Inr \<lparr>Revision = 41, Kvs = []\<rparr>) ''cfg/'')
     = [\<lparr>wkey = ''cfg/'', wopts = [WithRev 42, WithPrefix, WithPrevKV]\<rparr>]
   \<and> sint (41 :: 64 word) < 2 ^ 63 - 1
   \<and> sint ((41 :: 64 word) + 1) = sint (41 :: 64 word) + 1"
  using watch_stream_opened_after_revision
          [of "\<lparr>taker = True, ctx_done = False, send_first = True\<rparr>"
              "\<lparr>Revision = 41, Kvs = [\<lparr>kv_Key = ''cfg'', kv_Value = ''v''\<rparr>]\<rparr>" "''cfg''"
              "\<lambda>n. \<lparr>taker = True, ctx_done = False, send_first = True\<rparr>" "''cfg/''"]
        watch_stream_opened_after_revision
          [of "\<lparr>taker = True, ctx_done = False, send_first = True\<rparr>"
              "\<lparr>Revision = 41, Kvs = []\<rparr>" "''cfg''"
              "\<lambda>n. \<lparr>taker = True, ctx_done = False, send_first = True\<rparr>" "''cfg/''"]
  by simp

subsection \<open>One select of notifyWatchEvent\<close>

text \<open>The channel after a call: the event is always on record as offered, and as sent when the send went through.\<close>

lemma notifyWatchEvent_chan:
  "notify_chan (notifyWatchEvent env ch event) =
     (if send_ready env ch \<and> (\<not> ctx_done env \<or> send_first env)
      then ch\<lparr>offered := offered ch @ [event], sent := sent ch @ [event]\<rparr>
      else ch\<lparr>offered := offered ch @ [event]\<rparr>)"
  by (simp add: notifyWatchEvent_def Let_def)

text \<open>The three ways a call can go, with what each says about the channel and the context.\<close>

lemma notifyWatchEvent_cases:
  obtains (sent) ch' where "notifyWatchEvent env ch event = Sent ch'"
      "ch' = ch\<lparr>offered := offered ch @ [event], sent := sent ch @ [event]\<rparr>"
      "send_ready env ch" "\<not> ctx_done env \<or> send_first env"
    | (cancelled) ch' where "notifyWatchEvent env ch event = Cancelled ch'"
      "ch' = ch\<lparr>offered := offered ch @ [event]\<rparr>" "ctx_done env"
    | (blocked) ch' where "notifyWatchEvent env ch event = Blocked ch'"
      "ch' = ch\<lparr>offered := offered ch @ [event]\<rparr>" "\<not> ctx_done env" "\<not> send_ready env ch"
proof (cases "send_ready env ch \<and> (\<not> ctx_done env \<or> send_first env)")
  case True
  then show thesis
    using sent [of "ch\<lparr>offered := offered ch @ [event], sent := sent ch @ [event]\<rparr>"]
    by (simp add: notifyWatchEvent_def Let_def)
next
  case False
  show thesis
  proof (cases "ctx_done env")
    case True
    with False show thesis
      using cancelled [of "ch\<lparr>offered := offered ch @ [event]\<rparr>"]
      by (simp add: notifyWatchEvent_def Let_def)
  next
    case nd: False
    with False show thesis
      using blocked [of "ch\<lparr>offered := offered ch @ [event]\<rparr>"]
      by (simp add: notifyWatchEvent_def Let_def)
  qed
qed

text \<open>A send on a fresh channel with a buffer of one is never blocked: the buffer has room.\<close>

lemma notifyWatchEvent_fresh_buffered:
  "notifyWatchEvent env (make_chan (Suc 0)) event =
     (if \<not> ctx_done env \<or> send_first env
      then Sent \<lparr>cap = 1, reader = False, offered = [event], sent = [event], closes = 0\<rparr>
      else Cancelled \<lparr>cap = 1, reader = False, offered = [event], sent = [], closes = 0\<rparr>)"
  by (simp add: notifyWatchEvent_def send_ready_def make_chan_def)

text \<open>
  A send on a fresh channel without a buffer cannot go through, because no other goroutine
  has the channel yet: the call returns \<^verbatim>\<open>false\<close> if the context is cancelled and waits
  for ever otherwise.
\<close>

lemma notifyWatchEvent_fresh_unbuffered:
  "notifyWatchEvent env (make_chan 0) event =
     (if ctx_done env
      then Cancelled \<lparr>cap = 0, reader = False, offered = [event], sent = [], closes = 0\<rparr>
      else Blocked \<lparr>cap = 0, reader = False, offered = [event], sent = [], closes = 0\<rparr>)"
  by (simp add: notifyWatchEvent_def send_ready_def make_chan_def)

lemmas run_defs =
  handleWatchEvent_def notifyWatchEvent_def send_ready_def make_chan_def hand_over_def
  close_chan_def err_event_def convert_def reader_takes_def cancelled_first_def nobody_def
  always_def Watch_def WatchPrefix_def get_def watch_then_relay_def delivered_def Let_def

subsection \<open>The set-up of Watch and WatchPrefix\<close>

text \<open>\<^verbatim>\<open>Watch\<close> on a key with a non-empty value: the initial event is queued, or the call gives up.\<close>

lemma Watch_nonempty_value:
  assumes "Kvs resp = kv # rest" "kv_Value kv \<noteq> []"
  shows "Watch env (Inr resp) key =
     (if \<not> ctx_done env \<or> send_first env
      then \<lparr>watch_calls = [\<lparr>wkey = key, wopts = [WithRev (Revision resp + 1)]\<rparr>],
            echan = Some \<lparr>cap = 1, reader = True,
                           offered = [\<lparr>Type = EventTypeModify, Key = key,
                                       Value = kv_Value kv, Err = None\<rparr>],
                           sent = [\<lparr>Type = EventTypeModify, Key = key,
                                    Value = kv_Value kv, Err = None\<rparr>],
                           closes = 0\<rparr>,
            relay_started = True, ret = Ret_chan\<rparr>
      else \<lparr>watch_calls = [\<lparr>wkey = key, wopts = [WithRev (Revision resp + 1)]\<rparr>],
            echan = Some \<lparr>cap = 1, reader = False,
                           offered = [\<lparr>Type = EventTypeModify, Key = key,
                                       Value = kv_Value kv, Err = None\<rparr>],
                           sent = [], closes = 1\<rparr>,
            relay_started = False, ret = Ret_error NotifyWatchError\<rparr>)"
  using assms
  by (simp add: Watch_def get_def Let_def notifyWatchEvent_fresh_buffered hand_over_def
      close_chan_def)



text \<open>\<^verbatim>\<open>WatchPrefix\<close> when the read found an entry: the send of the first event is all it gets to.\<close>

lemma WatchPrefix_some_entry:
  assumes "Kvs resp = kv # rest"
  shows "WatchPrefix envs (Inr resp) prefixKey =
     \<lparr>watch_calls = [\<lparr>wkey = prefixKey,
                       wopts = [WithRev (Revision resp + 1), WithPrefix, WithPrevKV]\<rparr>],
      echan = Some \<lparr>cap = 0, reader = False,
                     offered = [\<lparr>Type = EventTypeModify, Key = kv_Key kv,
                                 Value = kv_Value kv, Err = None\<rparr>],
                     sent = [], closes = (if ctx_done (envs 0) then 1 else 0)\<rparr>,
      relay_started = False,
      ret = (if ctx_done (envs 0) then Ret_error NotifyWatchError else No_return)\<rparr>"
  using assms
  by (simp add: WatchPrefix_def Let_def notifyWatchEvent_fresh_unbuffered close_chan_def)

text \<open>
  So \<^verbatim>\<open>WatchPrefix\<close> returns no channel when the read found an entry, however the
  \<^verbatim>\<open>select\<close>s go; when nobody cancels the context, the call does not return.
\<close>

lemma WatchPrefix_some_entry_no_chan:
  assumes "Kvs resp \<noteq> []"
  shows "ret (WatchPrefix envs (Inr resp) prefixKey) \<noteq> Ret_chan"
proof -
  from assms obtain kv rest where "Kvs resp = kv # rest"
    by (cases "Kvs resp") auto
  then show ?thesis by (simp add: WatchPrefix_some_entry)
qed

lemma WatchPrefix_waits_for_ever:
  "ret (WatchPrefix (always nobody)
          (Inr \<lparr>Revision = 7, Kvs = [\<lparr>kv_Key = ''cfg/a'', kv_Value = ''v1''\<rparr>]\<rparr>) ''cfg/'')
     = No_return"
  by (simp add: WatchPrefix_some_entry always_def nobody_def)

text \<open>The loop of \<^verbatim>\<open>WatchPrefix\<close> never closes the channel.\<close>

lemma notify_Kvs_closes:
  "closes (notify_chan (notify_Kvs envs i kvs ch)) = closes ch"
proof (induction kvs arbitrary: i ch)
  case Nil
  show ?case by simp
next
  case (Cons kv kvs)
  show ?case
  proof (cases rule: notifyWatchEvent_cases
      [of "envs i" ch "\<lparr>Type = EventTypeModify, Key = kv_Key kv, Value = kv_Value kv, Err = None\<rparr>"])
    case (sent ch')
    with Cons.IH [of "Suc i" ch'] show ?thesis by simp
  next
    case (cancelled ch')
    then show ?thesis by simp
  next
    case (blocked ch')
    then show ?thesis by simp
  qed
qed

text \<open>
  C9. When the send of a synthesized initial event ends with the cancellation case
  (\<^verbatim>\<open>notifyWatchEvent\<close> returns \<^verbatim>\<open>false\<close>), \<^verbatim>\<open>Watch\<close> and \<^verbatim>\<open>WatchPrefix\<close> give up: they
  return the notify error and no channel, the relay goroutine is not started, and the
  channel they made is closed.
\<close>

theorem setup_aborts_when_send_is_cancelled:
  "(Kvs resp = kv # rest \<and> kv_Value kv \<noteq> []
      \<and> notifyWatchEvent env (make_chan 1)
            \<lparr>Type = EventTypeModify, Key = key, Value = kv_Value kv, Err = None\<rparr> = Cancelled ch1
      \<longrightarrow> ret (Watch env (Inr resp) key) = Ret_error NotifyWatchError
          \<and> \<not> relay_started (Watch env (Inr resp) key)
          \<and> map_option closes (echan (Watch env (Inr resp) key)) = Some 1)
   \<and> (notify_Kvs envs 0 (Kvs resp) (make_chan 0) = Cancelled ch2
      \<longrightarrow> ret (WatchPrefix envs (Inr resp) prefixKey) = Ret_error NotifyWatchError
          \<and> \<not> relay_started (WatchPrefix envs (Inr resp) prefixKey)
          \<and> map_option closes (echan (WatchPrefix envs (Inr resp) prefixKey)) = Some 1)"
proof -
  have "closes ch2 = 0" if "notify_Kvs envs 0 (Kvs resp) (make_chan 0) = Cancelled ch2"
    using notify_Kvs_closes [of envs 0 "Kvs resp" "make_chan 0"] that
    by (simp add: make_chan_def)
  then show ?thesis
    by (auto simp: Watch_def WatchPrefix_def get_def Let_def close_chan_def
        notifyWatchEvent_fresh_buffered split: if_splits)
qed

text \<open>
  Both calls with a context that is cancelled and wins the \<^verbatim>\<open>select\<close>: the send returns
  \<^verbatim>\<open>false\<close> and the call returns the notify error.
\<close>

theorem setup_aborts_when_send_is_cancelled_witness:
  "notifyWatchEvent cancelled_first (make_chan 1)
       \<lparr>Type = EventTypeModify, Key = ''cfg'', Value = ''v1'', Err = None\<rparr>
     = Cancelled \<lparr>cap = 1, reader = False,
                   offered = [\<lparr>Type = EventTypeModify, Key = ''cfg'', Value = ''v1'', Err = None\<rparr>],
                   sent = [], closes = 0\<rparr>
   \<and> ret (Watch cancelled_first (Inr \<lparr>Revision = 7, Kvs = [\<lparr>kv_Key = ''cfg'', kv_Value = ''v1''\<rparr>]\<rparr>) ''cfg'')
     = Ret_error NotifyWatchError
   \<and> notify_Kvs (always cancelled_first) 0 [\<lparr>kv_Key = ''cfg/a'', kv_Value = ''v1''\<rparr>] (make_chan 0)
     = Cancelled \<lparr>cap = 0, reader = False,
                   offered = [\<lparr>Type = EventTypeModify, Key = ''cfg/a'', Value = ''v1'', Err = None\<rparr>],
                   sent = [], closes = 0\<rparr>
   \<and> ret (WatchPrefix (always cancelled_first)
            (Inr \<lparr>Revision = 7, Kvs = [\<lparr>kv_Key = ''cfg/a'', kv_Value = ''v1''\<rparr>]\<rparr>) ''cfg/'')
     = Ret_error NotifyWatchError"
  using setup_aborts_when_send_is_cancelled
          [of "\<lparr>Revision = 7, Kvs = [\<lparr>kv_Key = ''cfg'', kv_Value = ''v1''\<rparr>]\<rparr>"
              "\<lparr>kv_Key = ''cfg'', kv_Value = ''v1''\<rparr>" "[]" cancelled_first "''cfg''"
              "\<lparr>cap = 1, reader = False,
                   offered = [\<lparr>Type = EventTypeModify, Key = ''cfg'', Value = ''v1'', Err = None\<rparr>],
                   sent = [], closes = 0\<rparr>"]
        setup_aborts_when_send_is_cancelled
          [of "\<lparr>Revision = 7, Kvs = [\<lparr>kv_Key = ''cfg/a'', kv_Value = ''v1''\<rparr>]\<rparr>"
              "\<lparr>kv_Key = ''cfg/a'', kv_Value = ''v1''\<rparr>" "[]" cancelled_first "''cfg''"
              "\<lparr>cap = 1, reader = False,
                   offered = [\<lparr>Type = EventTypeModify, Key = ''cfg'', Value = ''v1'', Err = None\<rparr>],
                   sent = [], closes = 0\<rparr>"
              "always cancelled_first"
              "\<lparr>cap = 0, reader = False,
                   offered = [\<lparr>Type = EventTypeModify, Key = ''cfg/a'', Value = ''v1'', Err = None\<rparr>],
                   sent = [], closes = 0\<rparr>" "''cfg/''"]
  by (simp add: run_defs)




subsection \<open>The relay\<close>

text \<open>The inner loop only appends converted events, none of which carries an error, and closes nothing.\<close>

lemma relay_events_sent:
  "\<exists>new. sent (step_chan (relay_events envs events n ch)) = sent ch @ new
      \<and> (\<forall>e \<in> set new. Err e = None)
      \<and> closes (step_chan (relay_events envs events n ch)) = closes ch"
proof (induction events arbitrary: n ch)
  case Nil
  show ?case by simp
next
  case (Cons event events)
  show ?case
  proof (cases rule: notifyWatchEvent_cases [of "envs n" ch "convert event"])
    case (sent ch')
    from Cons.IH [of "Suc n" ch'] obtain new where
      "sent (step_chan (relay_events envs events (Suc n) ch')) = sent ch' @ new"
      "\<forall>e \<in> set new. Err e = None"
      "closes (step_chan (relay_events envs events (Suc n) ch')) = closes ch'"
      by blast
    with sent show ?thesis
      by (intro exI [of _ "convert event # new"]) (simp add: convert_def)
  next
    case (cancelled ch')
    then show ?thesis by simp
  next
    case (blocked ch')
    then show ?thesis by simp
  qed
qed

text \<open>The outer loop appends converted events and relayed client errors, never the final error.\<close>

lemma relay_responses_sent:
  "\<exists>new. sent (step_chan (relay_responses envs resps n ch)) = sent ch @ new
      \<and> (\<forall>e \<in> set new. Err e \<noteq> Some WatchIsClosed)
      \<and> closes (step_chan (relay_responses envs resps n ch)) = closes ch"
proof (induction resps arbitrary: n ch)
  case Nil
  show ?case by simp
next
  case (Cons watchResp rest)
  have inner: "\<exists>new. sent (step_chan (case relay_events envs (Events watchResp) m c of
                   Continue n' ch' \<Rightarrow> relay_responses envs rest n' ch'
                 | Return ch' \<Rightarrow> Return ch'
                 | Stuck ch' \<Rightarrow> Stuck ch')) = sent c @ new
      \<and> (\<forall>e \<in> set new. Err e \<noteq> Some WatchIsClosed)
      \<and> closes (step_chan (case relay_events envs (Events watchResp) m c of
                   Continue n' ch' \<Rightarrow> relay_responses envs rest n' ch'
                 | Return ch' \<Rightarrow> Return ch'
                 | Stuck ch' \<Rightarrow> Stuck ch')) = closes c" for m c
  proof -
    obtain new1 where n1:
      "sent (step_chan (relay_events envs (Events watchResp) m c)) = sent c @ new1"
      "\<forall>e \<in> set new1. Err e = None"
      "closes (step_chan (relay_events envs (Events watchResp) m c)) = closes c"
      using relay_events_sent [of envs "Events watchResp" m c] by blast
    show ?thesis
    proof (cases "relay_events envs (Events watchResp) m c")
      case (Continue n' ch')
      obtain new2 where n2:
        "sent (step_chan (relay_responses envs rest n' ch')) = sent ch' @ new2"
        "\<forall>e \<in> set new2. Err e \<noteq> Some WatchIsClosed"
        "closes (step_chan (relay_responses envs rest n' ch')) = closes ch'"
        using Cons.IH [of n' ch'] by blast
      with n1 Continue show ?thesis
        by (intro exI [of _ "new1 @ new2"]) auto
    next
      case (Return ch')
      with n1 show ?thesis by (intro exI [of _ new1]) auto
    next
      case (Stuck ch')
      with n1 show ?thesis by (intro exI [of _ new1]) auto
    qed
  qed
  show ?case
  proof (cases "resp_Err watchResp")
    case None
    with inner [of n ch] show ?thesis by simp
  next
    case (Some msg)
    show ?thesis
    proof (cases rule: notifyWatchEvent_cases [of "envs n" ch "err_event (ClientError msg)"])
      case (sent ch')
      from inner [of "Suc n" ch'] obtain new where
        "sent (step_chan (case relay_events envs (Events watchResp) (Suc n) ch' of
                   Continue n' ch' \<Rightarrow> relay_responses envs rest n' ch'
                 | Return ch' \<Rightarrow> Return ch'
                 | Stuck ch' \<Rightarrow> Stuck ch')) = sent ch' @ new"
        "\<forall>e \<in> set new. Err e \<noteq> Some WatchIsClosed"
        "closes (step_chan (case relay_events envs (Events watchResp) (Suc n) ch' of
                   Continue n' ch' \<Rightarrow> relay_responses envs rest n' ch'
                 | Return ch' \<Rightarrow> Return ch'
                 | Stuck ch' \<Rightarrow> Stuck ch')) = closes ch'"
        by blast
      with sent Some show ?thesis
        by (intro exI [of _ "err_event (ClientError msg) # new"]) (simp add: err_event_def)
    next
      case (cancelled ch')
      with Some show ?thesis by simp
    next
      case (blocked ch')
      with Some show ?thesis by simp
    qed
  qed
qed

lemma nth_append_last_only:
  assumes "\<forall>e \<in> set xs. P e" "i < length (xs @ [x])" "\<not> P ((xs @ [x]) ! i)"
  shows "Suc i = length (xs @ [x])"
proof (cases "i < length xs")
  case True
  then have "(xs @ [x]) ! i \<in> set xs" by (simp add: nth_append)
  with assms show ?thesis by blast
next
  case False
  with assms(2) show ?thesis by simp
qed

text \<open>
  What the relay adds to the channel: the final error, if it is there at all, is the last
  event and the relay has returned; \<^verbatim>\<open>close\<close> runs once, when the relay returns.
\<close>

lemma handleWatchEvent_trace:
  "\<exists>new. sent (rchan (handleWatchEvent envs wc ch)) = sent ch @ new
     \<and> (\<forall>i < length new. Err (new ! i) = Some WatchIsClosed \<longrightarrow>
            Suc i = length new \<and> returned (handleWatchEvent envs wc ch))
     \<and> closes (rchan (handleWatchEvent envs wc ch)) =
         closes ch + (if returned (handleWatchEvent envs wc ch) then 1 else 0)"
proof -
  obtain new0 where n0:
    "sent (step_chan (relay_responses envs (responses wc) 0 ch)) = sent ch @ new0"
    "\<forall>e \<in> set new0. Err e \<noteq> Some WatchIsClosed"
    "closes (step_chan (relay_responses envs (responses wc) 0 ch)) = closes ch"
    using relay_responses_sent [of envs "responses wc" 0 ch] by blast
  have quiet: "\<forall>i < length new0. Err (new0 ! i) \<noteq> Some WatchIsClosed"
    using n0(2) by simp
  show ?thesis
  proof (cases "relay_responses envs (responses wc) 0 ch")
    case (Return ch')
    with n0 quiet show ?thesis
      by (intro exI [of _ new0]) (simp add: handleWatchEvent_def close_chan_def)
  next
    case (Stuck ch')
    with n0 quiet show ?thesis
      by (intro exI [of _ new0]) (simp add: handleWatchEvent_def)
  next
    case (Continue n ch')
    show ?thesis
    proof (cases "wc_closed wc")
      case False
      with Continue n0 quiet show ?thesis
        by (intro exI [of _ new0]) (simp add: handleWatchEvent_def)
    next
      case True
      show ?thesis
      proof (cases rule: notifyWatchEvent_cases [of "envs n" ch' "err_event WatchIsClosed"])
        case (sent ch'')
        have last: "Suc i = length (new0 @ [err_event WatchIsClosed])"
          if "i < length (new0 @ [err_event WatchIsClosed])"
             "Err ((new0 @ [err_event WatchIsClosed]) ! i) = Some WatchIsClosed" for i
          using nth_append_last_only [of new0 "\<lambda>e. Err e \<noteq> Some WatchIsClosed" i] n0(2) that
          by blast
        from Continue True sent n0 have
          "sent (rchan (handleWatchEvent envs wc ch)) = sent ch @ (new0 @ [err_event WatchIsClosed])"
          "returned (handleWatchEvent envs wc ch)"
          "closes (rchan (handleWatchEvent envs wc ch)) = closes ch + 1"
          by (simp_all add: handleWatchEvent_def close_chan_def)
        with last show ?thesis
          by (intro exI [of _ "new0 @ [err_event WatchIsClosed]"]) simp
      next
        case (cancelled ch'')
        with Continue True n0 quiet show ?thesis
          by (intro exI [of _ new0]) (simp add: handleWatchEvent_def close_chan_def)
      next
        case (blocked ch'')
        with Continue True n0 quiet show ?thesis
          by (intro exI [of _ new0]) (simp add: handleWatchEvent_def)
      qed
    qed
  qed
qed




text \<open>
  C3, as the spec states it, fails for a key with an empty value: \<^verbatim>\<open>Watch\<close> returns an
  empty channel, and the first event on it is the next change, not a Modify event with
  the value at subscription time.
\<close>

theorem Watch_empty_value_first_event_is_later_change:
  "ret (Watch reader_takes (client_Get \<lparr>entries = [''cfg'' \<mapsto> ''''], revision = 7\<rparr> None ''cfg'') ''cfg'')
     = Ret_chan
   \<and> (delivered
          (Watch reader_takes (client_Get \<lparr>entries = [''cfg'' \<mapsto> ''''], revision = 7\<rparr> None ''cfg'') ''cfg'')
          (always reader_takes)
          \<lparr>responses = [\<lparr>resp_Err = None,
                          Events = [\<lparr>ev_Type = PUT, Kv = \<lparr>kv_Key = ''cfg'', kv_Value = ''v2''\<rparr>\<rparr>]\<rparr>],
           wc_closed = False\<rparr>)
     = Some [\<lparr>Type = EventTypeModify, Key = ''cfg'', Value = ''v2'', Err = None\<rparr>]"
  by (simp add: run_defs client_Get_def)

text \<open>
  C3, amended. For a key that exists with a non-empty value \<open>V\<close> at subscription time,
  \<^verbatim>\<open>Watch\<close> does not wait in its set-up, it returns a channel whenever the context is not
  cancelled, and on every channel it returns the Modify event with the key and \<open>V\<close> is
  the first event, before everything the relay sends.
\<close>

theorem Watch_initial_event_first:
  assumes "Kvs resp = kv # rest" and "kv_Value kv \<noteq> []"
  shows "ret (Watch env (Inr resp) key) \<noteq> No_return
    \<and> (\<not> ctx_done env \<longrightarrow> ret (Watch env (Inr resp) key) = Ret_chan)
    \<and> (ret (Watch env (Inr resp) key) = Ret_chan \<longrightarrow>
         (\<exists>later. delivered (Watch env (Inr resp) key) envs wc =
            Some (\<lparr>Type = EventTypeModify, Key = key, Value = kv_Value kv, Err = None\<rparr> # later)))"
proof (cases "\<not> ctx_done env \<or> send_first env")
  case True
  let ?ch = "\<lparr>cap = 1, reader = True,
               offered = [\<lparr>Type = EventTypeModify, Key = key, Value = kv_Value kv, Err = None\<rparr>],
               sent = [\<lparr>Type = EventTypeModify, Key = key, Value = kv_Value kv, Err = None\<rparr>],
               closes = 0\<rparr>"
  from True have w: "echan (Watch env (Inr resp) key) = Some ?ch"
    "relay_started (Watch env (Inr resp) key)" "ret (Watch env (Inr resp) key) = Ret_chan"
    by (simp_all add: Watch_nonempty_value [OF assms])
  obtain new where "sent (rchan (handleWatchEvent envs wc ?ch)) = sent ?ch @ new"
    using handleWatchEvent_trace [of envs wc ?ch] by blast
  with w show ?thesis by (simp add: watch_then_relay_def delivered_def)
next
  case False
  then show ?thesis by (simp add: Watch_nonempty_value [OF assms])
qed

text \<open>A key with the value \<^verbatim>\<open>v1\<close>, then a put of \<^verbatim>\<open>v2\<close> relayed from the raw stream.\<close>

theorem Watch_initial_event_first_witness:
  "ret (Watch reader_takes (Inr \<lparr>Revision = 7, Kvs = [\<lparr>kv_Key = ''cfg'', kv_Value = ''v1''\<rparr>]\<rparr>) ''cfg'')
     = Ret_chan
   \<and> (delivered
          (Watch reader_takes (Inr \<lparr>Revision = 7, Kvs = [\<lparr>kv_Key = ''cfg'', kv_Value = ''v1''\<rparr>]\<rparr>) ''cfg'')
          (always reader_takes)
          \<lparr>responses = [\<lparr>resp_Err = None,
                          Events = [\<lparr>ev_Type = PUT, Kv = \<lparr>kv_Key = ''cfg'', kv_Value = ''v2''\<rparr>\<rparr>]\<rparr>],
           wc_closed = False\<rparr>)
     = Some [\<lparr>Type = EventTypeModify, Key = ''cfg'', Value = ''v1'', Err = None\<rparr>,
             \<lparr>Type = EventTypeModify, Key = ''cfg'', Value = ''v2'', Err = None\<rparr>]"
  using Watch_initial_event_first
          [of "\<lparr>Revision = 7, Kvs = [\<lparr>kv_Key = ''cfg'', kv_Value = ''v1''\<rparr>]\<rparr>"
              "\<lparr>kv_Key = ''cfg'', kv_Value = ''v1''\<rparr>" "[]" reader_takes "''cfg''"
              "always reader_takes"
              "\<lparr>responses = [\<lparr>resp_Err = None,
                          Events = [\<lparr>ev_Type = PUT, Kv = \<lparr>kv_Key = ''cfg'', kv_Value = ''v2''\<rparr>\<rparr>]\<rparr>],
                wc_closed = False\<rparr>"]
  by (simp add: run_defs)

end
